theory Spec2Isabelle
  imports Complex_Main "HOL-Library.Multiset" "HOL-Library.Word"
begin

unbundle bit_operations_syntax

section \<open>Host objects read by the script\<close>

text \<open>
  The script \<^verbatim>\<open>03-projection/script.js\<close> registers one A-Frame system and three
  components and patches two three.js shader chunks. JavaScript numbers are modelled as
  reals; \<^verbatim>\<open>undefined\<close> is \<open>None\<close>; a thrown \<^verbatim>\<open>TypeError\<close> is the left injection of a
  sum.
\<close>

datatype error = TypeError

type_synonym vec3 = "real \<times> real \<times> real"

text \<open>\<^verbatim>\<open>THREE.Matrix4.elements\<close>, column-major, read by index.\<close>

type_synonym matrix4 = "nat \<Rightarrow> real"

text \<open>A texture object of the host: the image it was loaded from, and whether the
  renderer's colour correction has been applied to it.\<close>

record texture =
  image_src :: string
  colorCorrected :: bool

text \<open>The component \<^verbatim>\<open>spotlight-texture\<close>: its schema data and its field
  \<^verbatim>\<open>this.texture\<close>.\<close>

record component_data =
  src :: string
  intensity :: real

record spotlight_texture =
  data :: component_data
  texture :: "texture option"

text \<open>The part of \<^verbatim>\<open>material\<close> and of the object registered as \<^verbatim>\<open>'mesh'\<close> that
  the script reads.\<close>

record material =
  onBeforeCompile_hooked :: bool
  onBeforeRender_hooked :: bool

record mesh_object =
  material :: "material option"

text \<open>An A-Frame entity, as far as the script reads it: \<^verbatim>\<open>el.components['spotlight-texture']\<close>
  and the map behind \<^verbatim>\<open>el.getObject3D\<close>.\<close>

record entity =
  components_spotlight_texture :: "spotlight_texture option"
  object3DMap :: "string \<rightharpoonup> mesh_object"

text \<open>A node of the three.js scene graph with the properties the script reads.
  \<^verbatim>\<open>object.isLight\<close> and \<^verbatim>\<open>object.isSpotLight\<close> are \<^verbatim>\<open>undefined\<close> (falsy) on
  other objects; \<^verbatim>\<open>layers\<close> is the 32-bit mask of \<^verbatim>\<open>THREE.Layers\<close>; \<^verbatim>\<open>el\<close> is set by
  A-Frame on the objects it creates and is \<^verbatim>\<open>undefined\<close> on others.\<close>

datatype object3D = Object3D
  (name: string)
  (visible: bool)
  (isLight: bool)
  (isSpotLight: bool)
  (layers: "32 word")
  (castShadow: bool)
  (matrixWorld: matrix4)
  (el: "entity option")
  (children: "object3D list")

record camera =
  camera_layers :: "32 word"
  matrixWorldInverse :: matrix4

record sceneEl =
  object3D :: object3D
  scene_camera :: camera

text \<open>\<^verbatim>\<open>Layers.test\<close> of three.js: \<^verbatim>\<open>(this.mask & layers.mask) !== 0\<close>.\<close>

definition layers_test :: "32 word \<Rightarrow> 32 word \<Rightarrow> bool" where
  "layers_test this_mask other_mask = (this_mask AND other_mask \<noteq> 0)"

text \<open>\<^verbatim>\<open>Object3D.traverseVisible\<close> of three.js: an invisible object ends the descent;
  otherwise the callback runs on the object, then on its children in order. The callback
  mutates captured state, which is threaded through.\<close>

fun traverseVisible :: "(object3D \<Rightarrow> 's \<Rightarrow> 's) \<Rightarrow> object3D \<Rightarrow> 's \<Rightarrow> 's" where
  "traverseVisible callback (Object3D nm vis lgt spot lay shadow mw ent chs) s =
     (if \<not> vis then s
      else fold (traverseVisible callback) chs
             (callback (Object3D nm vis lgt spot lay shadow mw ent chs) s))"

text \<open>\<^verbatim>\<open>Array.prototype.sort(compareFn)\<close>: the language requires a stable sort that puts
  \<open>a\<close> before \<open>b\<close> when \<open>compareFn a b < 0\<close>. An insertion sort from the right is one.\<close>

fun sort_insert :: "('a \<Rightarrow> 'a \<Rightarrow> int) \<Rightarrow> 'a \<Rightarrow> 'a list \<Rightarrow> 'a list" where
  "sort_insert compareFn x [] = [x]"
| "sort_insert compareFn x (y # ys) =
     (if compareFn x y \<le> 0 then x # y # ys else y # sort_insert compareFn x ys)"

fun array_sort :: "('a \<Rightarrow> 'a \<Rightarrow> int) \<Rightarrow> 'a list \<Rightarrow> 'a list" where
  "array_sort compareFn [] = []"
| "array_sort compareFn (x # xs) = sort_insert compareFn x (array_sort compareFn xs)"

section \<open>The system \<^verbatim>\<open>spotlights\<close>\<close>

record spotlights_system =
  spotLights :: "object3D list"

text \<open>The callback of \<^verbatim>\<open>tick\<close>: push the object when it is a light, a spotlight, and
  its layers meet the camera's.\<close>

definition collect :: "camera \<Rightarrow> object3D \<Rightarrow> spotlights_system \<Rightarrow> spotlights_system" where
  "collect cam obj sys =
     (if isLight obj \<and> isSpotLight obj \<and> layers_test (layers obj) (camera_layers cam)
      then sys\<lparr>spotLights := spotLights sys @ [obj]\<rparr> else sys)"

text \<open>The comparator of \<^verbatim>\<open>tick\<close>:
  \<^verbatim>\<open>(lightB.castShadow ? 1 : 0) - (lightA.castShadow ? 1 : 0)\<close>.\<close>

definition compareShadow :: "object3D \<Rightarrow> object3D \<Rightarrow> int" where
  "compareShadow lightA lightB =
     (if castShadow lightB then 1 else 0) - (if castShadow lightA then 1 else 0)"

text \<open>The first half of \<^verbatim>\<open>tick\<close>: the array is emptied and filled by the traversal.\<close>

definition collectSpotLights :: "sceneEl \<Rightarrow> spotlights_system \<Rightarrow> spotlights_system" where
  "collectSpotLights scene sys =
     (let sys1 = sys\<lparr>spotLights := []\<rparr>;
          cam = scene_camera scene
      in traverseVisible (collect cam) (object3D scene) sys1)"

definition tick :: "sceneEl \<Rightarrow> spotlights_system \<Rightarrow> spotlights_system" where
  "tick scene sys =
     (let sys2 = collectSpotLights scene sys
      in sys2\<lparr>spotLights := array_sort compareShadow (spotLights sys2)\<rparr>)"

subsection \<open>What the traversal visits\<close>

text \<open>The visible portion of the scene graph, in traversal order: an object is listed
  when it and all its ancestors are visible.\<close>

fun visibleObjects :: "object3D \<Rightarrow> object3D list" where
  "visibleObjects (Object3D nm vis lgt spot lay shadow mw ent chs) =
     (if \<not> vis then []
      else Object3D nm vis lgt spot lay shadow mw ent chs # concat (map visibleObjects chs))"

text \<open>The predicate of the registry: a spotlight on one of the camera's layers.\<close>

definition spotlightFor :: "camera \<Rightarrow> object3D \<Rightarrow> bool" where
  "spotlightFor cam obj =
     (isLight obj \<and> isSpotLight obj \<and> layers_test (layers obj) (camera_layers cam))"

section \<open>The component \<^verbatim>\<open>spotlight-texture\<close>\<close>

text \<open>\<^verbatim>\<open>systems.renderer.applyColorCorrection\<close> of the host marks the texture as
  colour-corrected.\<close>

definition applyColorCorrection :: "texture \<Rightarrow> texture" where
  "applyColorCorrection t = t\<lparr>colorCorrected := True\<rparr>"

text \<open>The component together with the loads the host has in flight for it: each entry of
  \<open>pending\<close> is the \<^verbatim>\<open>src\<close> of one call of \<^verbatim>\<open>loadTexture\<close> whose callback has not
  run yet, oldest first.\<close>

record binding =
  component :: spotlight_texture
  pending :: "string list"

text \<open>The callback handed to \<^verbatim>\<open>loadTexture\<close>: it stores the texture, whatever
  \<^verbatim>\<open>this.data.src\<close> is by then.\<close>

definition loadCallback :: "texture \<Rightarrow> spotlight_texture \<Rightarrow> spotlight_texture" where
  "loadCallback tex c = c\<lparr>texture := Some (applyColorCorrection tex)\<rparr>"

definition updateSrc :: "binding \<Rightarrow> binding" where
  "updateSrc b =
     (let s = src (data (component b));
          c = (component b)\<lparr>texture := None\<rparr>
      in b\<lparr>component := c, pending := pending b @ [s]\<rparr>)"

text \<open>\<^verbatim>\<open>update(oldData)\<close>; \<^verbatim>\<open>oldData.src\<close> is \<^verbatim>\<open>undefined\<close> on the first call.\<close>

definition update :: "string option \<Rightarrow> binding \<Rightarrow> binding" where
  "update oldData_src b =
     (if Some (src (data (component b))) \<noteq> oldData_src then updateSrc b else b)"

text \<open>Setting the attribute \<^verbatim>\<open>src\<close>: the host stores the new data and calls
  \<^verbatim>\<open>update\<close> with the old.\<close>

definition setSource :: "string \<Rightarrow> binding \<Rightarrow> binding" where
  "setSource ident b =
     (let old = src (data (component b));
          c = (component b)\<lparr>data := (data (component b))\<lparr>src := ident\<rparr>\<rparr>
      in update (Some old) (b\<lparr>component := c\<rparr>))"

definition remove_nth :: "nat \<Rightarrow> 'a list \<Rightarrow> 'a list" where
  "remove_nth i xs = take i xs @ drop (Suc i) xs"

text \<open>The host finishes the \<open>i\<close>-th load in flight: with a texture of the requested
  image, handed to the callback, or with a failure, where no callback runs.\<close>

definition loadCompletes :: "nat \<Rightarrow> binding \<Rightarrow> binding" where
  "loadCompletes i b =
     (if i < length (pending b)
      then b\<lparr>component :=
               loadCallback \<lparr>image_src = pending b ! i, colorCorrected = False\<rparr> (component b),
             pending := remove_nth i (pending b)\<rparr>
      else b)"

definition loadFails :: "nat \<Rightarrow> binding \<Rightarrow> binding" where
  "loadFails i b =
     (if i < length (pending b) then b\<lparr>pending := remove_nth i (pending b)\<rparr> else b)"

datatype event = SetSource string | LoadCompletes nat | LoadFails nat

fun step :: "event \<Rightarrow> binding \<Rightarrow> binding" where
  "step (SetSource ident) b = setSource ident b"
| "step (LoadCompletes i) b = loadCompletes i b"
| "step (LoadFails i) b = loadFails i b"

definition run :: "event list \<Rightarrow> binding \<Rightarrow> binding" where
  "run evs b = fold step evs b"

text \<open>The image the resolved texture was loaded from, if there is a resolved texture.\<close>

definition resolved_src :: "binding \<Rightarrow> string option" where
  "resolved_src b = map_option image_src (texture (component b))"

section \<open>The component \<^verbatim>\<open>receive-spotlight-texture\<close>\<close>

text \<open>\<^verbatim>\<open>Vector3.length\<close>, \<^verbatim>\<open>Vector3.normalize\<close> (which divides by \<^verbatim>\<open>length() || 1\<close>)
  and \<^verbatim>\<open>Vector3.transformDirection\<close> of three.js.\<close>

fun vector_length :: "vec3 \<Rightarrow> real" where
  "vector_length (x, y, z) = sqrt (x * x + y * y + z * z)"

fun divideScalar :: "vec3 \<Rightarrow> real \<Rightarrow> vec3" where
  "divideScalar (x, y, z) k = (x / k, y / k, z / k)"

definition vector_normalize :: "vec3 \<Rightarrow> vec3" where
  "vector_normalize v = divideScalar v (if vector_length v = 0 then 1 else vector_length v)"

fun transformDirection :: "matrix4 \<Rightarrow> vec3 \<Rightarrow> vec3" where
  "transformDirection e (x, y, z) =
     vector_normalize
       (e 0 * x + e 4 * y + e 8 * z,
        e 1 * x + e 5 * y + e 9 * z,
        e 2 * x + e 6 * y + e 10 * z)"

text \<open>One element of \<^verbatim>\<open>extras\<close>. \<^verbatim>\<open>intensity\<close> is \<^verbatim>\<open>undefined\<close> when the optional
  chain \<^verbatim>\<open>spotLightTextureInfo?.data.intensity\<close> stops at a missing component.\<close>

record extra =
  up :: vec3
  hasTexture :: bool
  extra_intensity :: "real option"

record uniforms =
  spotLightExs :: "extra list option"
  spotLightTextures :: "texture option list option"

text \<open>The shader object of the host: the two uniforms the script sets, and the rest of
  it, which the script does not touch.\<close>

record shader =
  uniforms :: uniforms
  fragmentShader :: string

text \<open>The body of the \<^verbatim>\<open>forEach\<close> in \<^verbatim>\<open>updateUniforms\<close>. Reading
  \<^verbatim>\<open>spotLight.el.components\<close> throws when \<^verbatim>\<open>spotLight.el\<close> is \<^verbatim>\<open>undefined\<close>.\<close>

definition pushSpotLight ::
  "camera \<Rightarrow> object3D \<Rightarrow> extra list \<times> texture option list \<Rightarrow>
     error + extra list \<times> texture option list" where
  "pushSpotLight cam spotLight acc =
     (case el spotLight of
        None \<Rightarrow> Inl TypeError
      | Some e \<Rightarrow>
          (let spotLightTextureInfo = components_spotlight_texture e;
               up0 = (0, 1, 0);
               up1 = transformDirection (matrixWorld spotLight) up0;
               up2 = transformDirection (matrixWorldInverse cam) up1;
               tex = Option.bind spotLightTextureInfo texture
           in Inr (fst acc @
                     [\<lparr>up = up2,
                       hasTexture = (tex \<noteq> None),
                       extra_intensity =
                         map_option (\<lambda>c. intensity (data c)) spotLightTextureInfo\<rparr>],
                   snd acc @ [tex])))"

text \<open>\<^verbatim>\<open>Array.prototype.forEach\<close> with a body that may throw.\<close>

fun forEach :: "('a \<Rightarrow> 's \<Rightarrow> error + 's) \<Rightarrow> 'a list \<Rightarrow> 's \<Rightarrow> error + 's" where
  "forEach body [] s = Inr s"
| "forEach body (x # xs) s =
     (case body x s of Inl err \<Rightarrow> Inl err | Inr s' \<Rightarrow> forEach body xs s')"

definition updateUniforms :: "spotlights_system \<Rightarrow> shader \<Rightarrow> camera \<Rightarrow> error + shader" where
  "updateUniforms sys shaderObj cam =
     (case forEach (pushSpotLight cam) (spotLights sys) ([], []) of
        Inl err \<Rightarrow> Inl err
      | Inr (extras, textures) \<Rightarrow>
          Inr (shaderObj\<lparr>uniforms :=
                 (uniforms shaderObj)\<lparr>spotLightExs := Some extras,
                                        spotLightTextures := Some textures\<rparr>\<rparr>))"

text \<open>The variable \<^verbatim>\<open>shaderObject\<close> that the two hooks close over. It refers to the
  shader object of the host, which the hooks update in place.\<close>

record receiver =
  shaderObject :: "shader option"

definition init :: "entity \<Rightarrow> error + material \<times> receiver" where
  "init this_el =
     (case object3DMap this_el ''mesh'' of
        None \<Rightarrow> Inl TypeError
      | Some mesh \<Rightarrow>
          (case material mesh of
             None \<Rightarrow> Inl TypeError
           | Some m \<Rightarrow>
               Inr (m\<lparr>onBeforeCompile_hooked := True, onBeforeRender_hooked := True\<rparr>,
                    \<lparr>shaderObject = None\<rparr>)))"

definition onBeforeCompile ::
  "spotlights_system \<Rightarrow> sceneEl \<Rightarrow> shader \<Rightarrow> receiver \<Rightarrow> error + receiver" where
  "onBeforeCompile sys scene shaderObj r =
     (case updateUniforms sys shaderObj (scene_camera scene) of
        Inl err \<Rightarrow> Inl err
      | Inr shaderObj' \<Rightarrow> Inr (r\<lparr>shaderObject := Some shaderObj'\<rparr>))"

definition onBeforeRender ::
  "spotlights_system \<Rightarrow> camera \<Rightarrow> receiver \<Rightarrow> error + receiver" where
  "onBeforeRender sys cam r =
     (case shaderObject r of
        None \<Rightarrow> Inr r
      | Some shaderObj \<Rightarrow>
          (case updateUniforms sys shaderObj cam of
             Inl err \<Rightarrow> Inl err
           | Inr shaderObj' \<Rightarrow> Inr (r\<lparr>shaderObject := Some shaderObj'\<rparr>)))"

text \<open>The host calling a hook \<open>n\<close> times in a row.\<close>

fun invoke :: "nat \<Rightarrow> ('s \<Rightarrow> error + 's) \<Rightarrow> 's \<Rightarrow> error + 's" where
  "invoke 0 hook s = Inr s"
| "invoke (Suc n) hook s =
     (case hook s of Inl err \<Rightarrow> Inl err | Inr s' \<Rightarrow> invoke n hook s')"

text \<open>What the shader reads at a publish: the two arrays, index by index alongside the
  registry.\<close>

definition published :: "receiver \<Rightarrow> (extra list \<times> texture option list) option" where
  "published r =
     (case shaderObject r of
        None \<Rightarrow> None
      | Some shaderObj \<Rightarrow>
          (case (spotLightExs (uniforms shaderObj), spotLightTextures (uniforms shaderObj)) of
             (Some extras, Some textures) \<Rightarrow> Some (extras, textures)
           | _ \<Rightarrow> None))"

section \<open>The patched shader chunk \<^verbatim>\<open>lights_pars_begin\<close>\<close>

text \<open>
  The routine \<^verbatim>\<open>getSpotLightInfo\<close> is GLSL inside a template string. Its \<^verbatim>\<open>float\<close> is
  modelled as a real number, \<^verbatim>\<open>acos\<close> as \<open>arccos\<close> and the constant \<^verbatim>\<open>PI\<close> as \<open>pi\<close>:
  the model is the routine in exact arithmetic. \<^verbatim>\<open>getSpotAttenuation\<close> and
  \<^verbatim>\<open>getDistanceAttenuation\<close> belong to the unpatched part of the chunk and are parameters;
  a sampler is the function from a coordinate to the colour \<^verbatim>\<open>texture(s, p).rgb\<close>.
\<close>

type_synonym vec2 = "real \<times> real"

type_synonym sampler2D = "vec2 \<Rightarrow> vec3"

record SpotLight =
  position :: vec3
  direction :: vec3
  color :: vec3
  distance :: real
  decay :: real
  coneCos :: real
  penumbraCos :: real

record SpotLightEx =
  ex_up :: vec3
  ex_hasTexture :: bool
  ex_intensity :: real

record GeometricContext =
  geometry_position :: vec3

record IncidentLight =
  light_direction :: vec3
  light_color :: vec3
  light_visible :: bool

fun vec3_minus :: "vec3 \<Rightarrow> vec3 \<Rightarrow> vec3" where
  "vec3_minus (a, b, c) (x, y, z) = (a - x, b - y, c - z)"

fun vec3_times :: "vec3 \<Rightarrow> real \<Rightarrow> vec3" where
  "vec3_times (x, y, z) k = (x * k, y * k, z * k)"

fun dot :: "vec3 \<Rightarrow> vec3 \<Rightarrow> real" where
  "dot (a, b, c) (x, y, z) = a * x + b * y + c * z"

fun cross :: "vec3 \<Rightarrow> vec3 \<Rightarrow> vec3" where
  "cross (a, b, c) (x, y, z) = (b * z - c * y, c * x - a * z, a * y - b * x)"

definition glsl_length :: "vec3 \<Rightarrow> real" where
  "glsl_length v = sqrt (dot v v)"

text \<open>GLSL leaves \<^verbatim>\<open>normalize\<close> of the zero vector undefined; here it is the zero
  vector, as division by zero is zero in HOL.\<close>

definition glsl_normalize :: "vec3 \<Rightarrow> vec3" where
  "glsl_normalize v = vec3_times v (1 / glsl_length v)"

text \<open>The coordinate at which the texture is sampled (the lines from \<^verbatim>\<open>vec3 left\<close> to
  \<^verbatim>\<open>samplePoint += ...\<close>), for the direction \<open>lightDir\<close> from the shaded point to the
  light.\<close>

definition samplePoint :: "SpotLight \<Rightarrow> SpotLightEx \<Rightarrow> vec3 \<Rightarrow> vec2" where
  "samplePoint spotLight spotLightEx lightDir =
     (let left = glsl_normalize (cross (ex_up spotLightEx) (direction spotLight));
          coneAngle = arccos (coneCos spotLight);
          leftCos = dot lightDir left;
          leftAngle = arccos leftCos;
          upCos = dot lightDir (ex_up spotLightEx);
          upAngle = arccos upCos
      in (1 / 2 + (leftAngle - pi / 2) / (2 * coneAngle),
          1 / 2 + (upAngle - pi / 2) / (2 * coneAngle)))"

definition getSpotLightInfo ::
  "(real \<Rightarrow> real \<Rightarrow> real \<Rightarrow> real) \<Rightarrow> (real \<Rightarrow> real \<Rightarrow> real \<Rightarrow> real) \<Rightarrow>
     SpotLight \<Rightarrow> SpotLightEx \<Rightarrow> sampler2D \<Rightarrow> GeometricContext \<Rightarrow> IncidentLight" where
  "getSpotLightInfo getSpotAttenuation getDistanceAttenuation
       spotLight spotLightEx spotLightTexture geometry =
     (let lVector = vec3_minus (position spotLight) (geometry_position geometry);
          lightDir = glsl_normalize lVector;
          angleCos = dot lightDir (direction spotLight);
          spotAttenuation =
            getSpotAttenuation (coneCos spotLight) (penumbraCos spotLight) angleCos
      in if spotAttenuation > 0 \<or> spotAttenuation \<le> 0
         then
           (let lightDistance = glsl_length lVector;
                col = (if ex_hasTexture spotLightEx
                       then vec3_times
                              (spotLightTexture (samplePoint spotLight spotLightEx lightDir))
                              (ex_intensity spotLightEx)
                       else color spotLight);
                col1 = vec3_times col spotAttenuation;
                col2 = vec3_times col1
                         (getDistanceAttenuation lightDistance (distance spotLight)
                            (decay spotLight))
            in \<lparr>light_direction = lightDir, light_color = col2,
                light_visible = (col2 \<noteq> (0, 0, 0))\<rparr>)
         else \<lparr>light_direction = lightDir, light_color = (0, 0, 0),
               light_visible = False\<rparr>)"

section \<open>Auxiliary notions and example data\<close>

text \<open>What the loop of \<^verbatim>\<open>updateUniforms\<close> stores for a spotlight whose \<^verbatim>\<open>el\<close> is
  defined: the element of \<^verbatim>\<open>extras\<close> and the element of \<^verbatim>\<open>textures\<close>.\<close>

definition extraOf :: "camera \<Rightarrow> object3D \<Rightarrow> extra" where
  "extraOf cam l =
     \<lparr>up = transformDirection (matrixWorldInverse cam)
             (transformDirection (matrixWorld l) (0, 1, 0)),
      hasTexture =
        (Option.bind (Option.bind (el l) components_spotlight_texture) texture \<noteq> None),
      extra_intensity =
        map_option (\<lambda>c. intensity (data c))
          (Option.bind (el l) components_spotlight_texture)\<rparr>"

definition textureOf :: "object3D \<Rightarrow> texture option" where
  "textureOf l = Option.bind (Option.bind (el l) components_spotlight_texture) texture"

definition identity4 :: matrix4 where
  "identity4 i = (if i = 0 \<or> i = 5 \<or> i = 10 \<or> i = 15 then 1 else 0)"

text \<open>Entities: one without the component \<^verbatim>\<open>spotlight-texture\<close> and without a mesh,
  one whose component holds a loaded texture and intensity 2, one with a mesh.\<close>

definition plain_entity :: entity where
  "plain_entity = \<lparr>components_spotlight_texture = None, object3DMap = Map.empty\<rparr>"

definition gobo_entity :: entity where
  "gobo_entity =
     \<lparr>components_spotlight_texture =
        Some \<lparr>data = \<lparr>src = ''gobo.png'', intensity = 2\<rparr>,
              texture = Some \<lparr>image_src = ''gobo.png'', colorCorrected = True\<rparr>\<rparr>,
      object3DMap = Map.empty\<rparr>"

definition mesh_entity :: entity where
  "mesh_entity =
     \<lparr>components_spotlight_texture = None,
      object3DMap =
        [''mesh'' \<mapsto> \<lparr>material = Some \<lparr>onBeforeCompile_hooked = False,
                                           onBeforeRender_hooked = False\<rparr>\<rparr>]\<rparr>"

definition demo_spot :: "string \<Rightarrow> 32 word \<Rightarrow> bool \<Rightarrow> object3D" where
  "demo_spot nm lay shadow =
     Object3D nm True True True lay shadow identity4 (Some plain_entity) []"

definition gobo_spot :: object3D where
  "gobo_spot = Object3D ''gobo'' True True True 1 True identity4 (Some gobo_entity) []"

definition demo_camera :: camera where
  "demo_camera = \<lparr>camera_layers = 1, matrixWorldInverse = identity4\<rparr>"

text \<open>A scene with, in traversal order: a spotlight \<open>a\<close>, a point light, a spotlight \<open>b\<close>
  on another layer, a hidden group holding a spotlight \<open>c\<close>, a shadow-casting spotlight
  \<open>d\<close>, and a spotlight \<open>e\<close> on two layers.\<close>

definition demo_scene :: sceneEl where
  "demo_scene =
     \<lparr>object3D = Object3D ''scene'' True False False 1 False identity4 None
        [demo_spot ''a'' 1 False,
         Object3D ''point'' True True False 1 False identity4 (Some plain_entity) [],
         demo_spot ''b'' 2 False,
         Object3D ''hidden'' False False False 1 False identity4 (Some plain_entity)
           [demo_spot ''c'' 1 True],
         demo_spot ''d'' 1 True,
         demo_spot ''e'' 3 False],
      scene_camera = demo_camera\<rparr>"

definition empty_scene :: sceneEl where
  "empty_scene =
     \<lparr>object3D = Object3D ''scene'' True False False 1 False identity4 None [],
      scene_camera = demo_camera\<rparr>"

definition stale_registry :: spotlights_system where
  "stale_registry = \<lparr>spotLights = [demo_spot ''old'' 1 False]\<rparr>"

definition demo_shader :: shader where
  "demo_shader =
     \<lparr>uniforms = \<lparr>spotLightExs = None, spotLightTextures = None\<rparr>,
      fragmentShader = ''void main() {}''\<rparr>"

definition demo_registry :: spotlights_system where
  "demo_registry = \<lparr>spotLights = [gobo_spot, demo_spot ''a'' 1 False]\<rparr>"

text \<open>The shader object after \<^verbatim>\<open>updateUniforms\<close> has run on \<open>demo_registry\<close>.\<close>

definition demo_published :: shader where
  "demo_published =
     demo_shader\<lparr>uniforms :=
       \<lparr>spotLightExs =
          Some [\<lparr>up = (0, 1, 0), hasTexture = True, extra_intensity = Some 2\<rparr>,
                \<lparr>up = (0, 1, 0), hasTexture = False, extra_intensity = None\<rparr>],
        spotLightTextures =
          Some [Some \<lparr>image_src = ''gobo.png'', colorCorrected = True\<rparr>, None]\<rparr>\<rparr>"

text \<open>A binding with no load in flight.\<close>

definition idle_binding :: binding where
  "idle_binding =
     \<lparr>component = \<lparr>data = \<lparr>src = ''first.png'', intensity = 10\<rparr>, texture = None\<rparr>,
      pending = []\<rparr>"

text \<open>The events that run the callback of a load.\<close>

fun is_completion :: "event \<Rightarrow> bool" where
  "is_completion (LoadCompletes i) = True"
| "is_completion _ = False"

text \<open>The colour of a spotlight without a texture, in the specification's words: the
  light's own colour times the angular attenuation times the distance attenuation.\<close>

definition nativeSpotLightColor ::
  "(real \<Rightarrow> real \<Rightarrow> real \<Rightarrow> real) \<Rightarrow> (real \<Rightarrow> real \<Rightarrow> real \<Rightarrow> real) \<Rightarrow>
     SpotLight \<Rightarrow> GeometricContext \<Rightarrow> vec3" where
  "nativeSpotLightColor getSpotAttenuation getDistanceAttenuation spotLight geometry =
     (let lVector = vec3_minus (position spotLight) (geometry_position geometry);
          angleCos = dot (glsl_normalize lVector) (direction spotLight)
      in vec3_times
           (vec3_times (color spotLight)
              (getSpotAttenuation (coneCos spotLight) (penumbraCos spotLight) angleCos))
           (getDistanceAttenuation (glsl_length lVector) (distance spotLight)
              (decay spotLight)))"

text \<open>Two attenuation functions to run the routine with: GLSL's \<^verbatim>\<open>smoothstep\<close>, which
  is the angular attenuation of three.js (GLSL leaves it undefined unless
  \<open>edge0 < edge1\<close>), and an inverse-square falloff.\<close>

definition smoothstep :: "real \<Rightarrow> real \<Rightarrow> real \<Rightarrow> real" where
  "smoothstep edge0 edge1 x =
     (let t = max 0 (min 1 ((x - edge0) / (edge1 - edge0))) in t * t * (3 - 2 * t))"

definition inverseSquare :: "real \<Rightarrow> real \<Rightarrow> real \<Rightarrow> real" where
  "inverseSquare lightDistance cutoffDistance decayExponent =
     1 / max (lightDistance * lightDistance) (1 / 100)"

text \<open>A spotlight at the origin shining along its own axis, and the same light aimed at
  a target off that axis, so that its direction is no longer perpendicular to the up
  vector \<open>(0, 1, 0)\<close>.\<close>

definition demo_light :: SpotLight where
  "demo_light =
     \<lparr>position = (0, 0, 0), direction = (0, 0, 1), color = (1, 1 / 2, 1 / 4),
      distance = 0, decay = 2, coneCos = 1 / 2, penumbraCos = 3 / 4\<rparr>"

definition tilted_light :: SpotLight where
  "tilted_light = demo_light\<lparr>direction := (0, 3 / 5, 4 / 5)\<rparr>"

definition demo_ex :: SpotLightEx where
  "demo_ex = \<lparr>ex_up = (0, 1, 0), ex_hasTexture = True, ex_intensity = 2\<rparr>"

definition flat_ex :: SpotLightEx where
  "flat_ex = \<lparr>ex_up = (0, 1, 0), ex_hasTexture = False, ex_intensity = 0\<rparr>"

definition demo_sampler :: sampler2D where
  "demo_sampler p = (fst p, snd p, 1)"

text \<open>Shaded points on the forward axis of \<open>demo_light\<close> and of \<open>tilted_light\<close>.\<close>

definition demo_geometry :: GeometricContext where
  "demo_geometry = \<lparr>geometry_position = (0, 0, - 3)\<rparr>"

definition tilted_geometry :: GeometricContext where
  "tilted_geometry = \<lparr>geometry_position = (0, - (3 / 5), - (4 / 5))\<rparr>"

section \<open>Properties of the registry\<close>

lemma fold_traverse_collect:
  assumes "\<And>c s. c \<in> set chs \<Longrightarrow>
     spotLights (traverseVisible (collect cam) c s) =
       spotLights s @ filter (spotlightFor cam) (visibleObjects c)"
  shows "spotLights (fold (traverseVisible (collect cam)) chs s) =
       spotLights s @ filter (spotlightFor cam) (concat (map visibleObjects chs))"
  using assms by (induction chs arbitrary: s) simp_all

lemma spotLights_collect:
  "spotLights (collect cam obj s) =
     spotLights s @ (if spotlightFor cam obj then [obj] else [])"
  by (simp add: collect_def spotlightFor_def)

lemma traverseVisible_collect:
  "spotLights (traverseVisible (collect cam) obj s) =
     spotLights s @ filter (spotlightFor cam) (visibleObjects obj)"
proof (induction obj arbitrary: s)
  case (Object3D nm vis lgt spot lay shadow mw ent chs)
  show ?case
  proof (cases vis)
    case False
    then show ?thesis by simp
  next
    case True
    have "spotLights (fold (traverseVisible (collect cam)) chs s') =
       spotLights s' @ filter (spotlightFor cam) (concat (map visibleObjects chs))" for s'
      by (rule fold_traverse_collect) (rule Object3D.IH)
    with True show ?thesis
      by (simp add: spotLights_collect)
  qed
qed

lemma collectSpotLights_eq:
  "spotLights (collectSpotLights scene sys) =
     filter (spotlightFor (scene_camera scene)) (visibleObjects (object3D scene))"
  by (simp add: collectSpotLights_def Let_def traverseVisible_collect)

lemma mset_sort_insert: "mset (sort_insert compareFn x ys) = add_mset x (mset ys)"
  by (induction ys) simp_all

lemma mset_array_sort: "mset (array_sort compareFn xs) = mset xs"
  by (induction xs) (simp_all add: mset_sort_insert)

lemma sort_insert_skip:
  "\<forall>a \<in> set as. 0 < compareFn x a \<Longrightarrow>
     sort_insert compareFn x (as @ bs) = as @ sort_insert compareFn x bs"
  by (induction as) simp_all

lemma sort_insert_front:
  "(\<And>y. compareFn x y \<le> 0) \<Longrightarrow> sort_insert compareFn x ys = x # ys"
  by (cases ys) simp_all

lemma sort_insert_head:
  "(\<And>y. y \<in> set ys \<Longrightarrow> compareFn x y \<le> 0) \<Longrightarrow> sort_insert compareFn x ys = x # ys"
  by (cases ys) simp_all

lemma array_sort_compareShadow:
  "array_sort compareShadow xs = filter castShadow xs @ filter (\<lambda>l. \<not> castShadow l) xs"
proof (induction xs)
  case Nil
  show ?case by simp
next
  case (Cons x xs)
  show ?case
  proof (cases "castShadow x")
    case True
    then have "sort_insert compareShadow x ys = x # ys" for ys
      by (intro sort_insert_front) (simp add: compareShadow_def)
    with True Cons show ?thesis by simp
  next
    case False
    have "sort_insert compareShadow x (filter castShadow xs @ filter (\<lambda>l. \<not> castShadow l) xs)
        = filter castShadow xs @ sort_insert compareShadow x (filter (\<lambda>l. \<not> castShadow l) xs)"
      using False by (intro sort_insert_skip) (simp add: compareShadow_def)
    also have "sort_insert compareShadow x (filter (\<lambda>l. \<not> castShadow l) xs)
        = x # filter (\<lambda>l. \<not> castShadow l) xs"
      using False by (intro sort_insert_head) (simp add: compareShadow_def)
    finally show ?thesis using False Cons by simp
  qed
qed

text \<open>
  The sort is fixed by what the language requires of it. A result is sorted when no
  element stands before one that the comparator puts first, and stable when elements
  that compare equal (here: lights with the same \<^verbatim>\<open>castShadow\<close>) keep their order. Every
  such result of sorting \<open>xs\<close> with the comparator of \<^verbatim>\<open>tick\<close> is the list that
  \<open>array_sort\<close> computes, and that list is sorted.
\<close>

lemma sorted_by_compareShadow_partition:
  "sorted_wrt (\<lambda>a b. compareShadow a b \<le> 0) ys \<Longrightarrow>
     ys = filter castShadow ys @ filter (\<lambda>l. \<not> castShadow l) ys"
proof (induction ys)
  case Nil
  show ?case by simp
next
  case (Cons y ys)
  show ?case
  proof (cases "castShadow y")
    case True
    with Cons show ?thesis by simp
  next
    case False
    with Cons.prems have "\<forall>z \<in> set ys. \<not> castShadow z"
      by (auto simp: compareShadow_def split: if_splits)
    then have "filter castShadow ys = []" "filter (\<lambda>l. \<not> castShadow l) ys = ys"
      by (simp_all add: filter_empty_conv)
    with False show ?thesis by simp
  qed
qed

lemma conforming_sort_unique:
  assumes "sorted_wrt (\<lambda>a b. compareShadow a b \<le> 0) ys"
    and "filter castShadow ys = filter castShadow xs"
    and "filter (\<lambda>l. \<not> castShadow l) ys = filter (\<lambda>l. \<not> castShadow l) xs"
  shows "ys = array_sort compareShadow xs"
  using sorted_by_compareShadow_partition [OF assms(1)] assms(2,3)
  by (simp add: array_sort_compareShadow)

lemma sorted_wrt_all:
  "(\<And>a b. a \<in> set xs \<Longrightarrow> b \<in> set xs \<Longrightarrow> P a b) \<Longrightarrow> sorted_wrt P xs"
  by (induction xs) simp_all

lemma array_sort_conforming:
  "sorted_wrt (\<lambda>a b. compareShadow a b \<le> 0) (array_sort compareShadow xs)"
proof -
  have "sorted_wrt (\<lambda>a b. compareShadow a b \<le> 0) (filter castShadow xs)"
    by (rule sorted_wrt_all) (simp add: compareShadow_def)
  moreover have "sorted_wrt (\<lambda>a b. compareShadow a b \<le> 0) (filter (\<lambda>l. \<not> castShadow l) xs)"
    by (rule sorted_wrt_all) (simp add: compareShadow_def)
  ultimately show ?thesis
    by (simp add: array_sort_compareShadow sorted_wrt_append compareShadow_def)
qed

lemma tick_spotLights:
  "spotLights (tick scene sys) =
     array_sort compareShadow (spotLights (collectSpotLights scene sys))"
  by (simp add: tick_def Let_def)

lemma append_nth_front:
  assumes "\<forall>a \<in> set as. P a" and "\<forall>b \<in> set bs. \<not> P b"
    and "i < j" and "j < length (as @ bs)" and "P ((as @ bs) ! j)"
  shows "P ((as @ bs) ! i)"
proof -
  have "j < length as"
  proof (rule ccontr)
    assume n: "\<not> j < length as"
    with assms(4) have "j - length as < length bs" by simp
    then have "bs ! (j - length as) \<in> set bs" by (rule nth_mem)
    with assms(2) have "\<not> P (bs ! (j - length as))" by blast
    with n assms(5) show False by (simp add: nth_append)
  qed
  with assms(3) have "i < length as" by simp
  then have "as ! i \<in> set as" by (rule nth_mem)
  with assms(1) \<open>i < length as\<close> show ?thesis by (simp add: nth_append)
qed

lemma filter_partition_same:
  "filter P (filter P xs @ filter (\<lambda>x. \<not> P x) xs) = filter P xs"
  "filter (\<lambda>x. \<not> P x) (filter P xs @ filter (\<lambda>x. \<not> P x) xs) = filter (\<lambda>x. \<not> P x) xs"
  by (induction xs) auto

lemma demo_visible_spotlights:
  "filter (spotlightFor (scene_camera demo_scene)) (visibleObjects (object3D demo_scene)) =
     [demo_spot ''a'' 1 False, demo_spot ''d'' 1 True, demo_spot ''e'' 3 False]"
  by (simp add: demo_scene_def demo_spot_def demo_camera_def spotlightFor_def layers_test_def)

text \<open>
  Claim C2. After \<^verbatim>\<open>tick\<close>, the array \<^verbatim>\<open>spotLights\<close> holds exactly the objects of the
  visible part of the scene graph that are lights, are spotlights and share a layer with
  the camera, each as often as the traversal meets it: it is a permutation of them, so its
  length is their number, and every element of it is a visible spotlight on a layer of
  the camera (no other light, no spotlight off the camera's layers). Whatever the array
  held before is dropped. A scene whose root has no children and is not a light gives the
  empty array.
\<close>

theorem tick_collects_visible_spotlights:
  "mset (spotLights (tick scene sys)) =
     mset (filter (spotlightFor (scene_camera scene)) (visibleObjects (object3D scene)))
   \<and> length (spotLights (tick scene sys)) =
     length (filter (spotlightFor (scene_camera scene)) (visibleObjects (object3D scene)))
   \<and> (\<forall>l \<in> set (spotLights (tick scene sys)).
         l \<in> set (visibleObjects (object3D scene)) \<and> isLight l \<and> isSpotLight l \<and>
         layers_test (layers l) (camera_layers (scene_camera scene)))
   \<and> (children (object3D scene) = [] \<and> \<not> isLight (object3D scene)
         \<longrightarrow> spotLights (tick scene sys) = [])"
proof -
  let ?xs = "filter (spotlightFor (scene_camera scene)) (visibleObjects (object3D scene))"
  have m: "mset (spotLights (tick scene sys)) = mset ?xs"
    by (simp add: tick_spotLights collectSpotLights_eq mset_array_sort)
  have l: "length (spotLights (tick scene sys)) = length ?xs"
    using m by (metis size_mset)
  have s: "set (spotLights (tick scene sys)) = set ?xs"
    using m by (metis set_mset_mset)
  have e: "spotLights (tick scene sys) = []"
    if "children (object3D scene) = []" "\<not> isLight (object3D scene)"
  proof -
    have "?xs = []"
      using that by (cases "object3D scene") (simp add: spotlightFor_def)
    with l show ?thesis by simp
  qed
  show ?thesis using m l s e by (auto simp: spotlightFor_def)
qed

theorem tick_collects_visible_spotlights_witness:
  "length (spotLights (tick demo_scene stale_registry)) = 3
   \<and> set (spotLights (tick demo_scene stale_registry)) =
       {demo_spot ''a'' 1 False, demo_spot ''d'' 1 True, demo_spot ''e'' 3 False}
   \<and> spotLights (tick empty_scene stale_registry) = []"
proof -
  have "length (spotLights (tick demo_scene stale_registry)) = 3
   \<and> set (spotLights (tick demo_scene stale_registry)) =
       {demo_spot ''a'' 1 False, demo_spot ''d'' 1 True, demo_spot ''e'' 3 False}"
    using tick_collects_visible_spotlights [of demo_scene stale_registry]
    unfolding demo_visible_spotlights
    by (metis length_Cons list.size(3) numeral_3_eq_3 set_mset_mset list.simps(15) empty_set)
  moreover have "spotLights (tick empty_scene stale_registry) = []"
    using tick_collects_visible_spotlights [of empty_scene stale_registry]
    by (simp add: empty_scene_def)
  ultimately show ?thesis by simp
qed

text \<open>
  Claim C3. The traversal fills the array with the registered spotlights in traversal
  order, and the array after the sort is the stable partition of that array on
  \<^verbatim>\<open>castShadow\<close>: the shadow-casting lights in traversal order, then the others in
  traversal order. So the lights of either kind keep their relative order, and
  no light that does not cast a shadow stands before one that does.
\<close>

theorem tick_shadow_casters_first:
  "spotLights (collectSpotLights scene sys) =
     filter (spotlightFor (scene_camera scene)) (visibleObjects (object3D scene))
   \<and> spotLights (tick scene sys) =
     filter castShadow (spotLights (collectSpotLights scene sys))
     @ filter (\<lambda>l. \<not> castShadow l) (spotLights (collectSpotLights scene sys))
   \<and> filter castShadow (spotLights (tick scene sys)) =
     filter castShadow (spotLights (collectSpotLights scene sys))
   \<and> filter (\<lambda>l. \<not> castShadow l) (spotLights (tick scene sys)) =
     filter (\<lambda>l. \<not> castShadow l) (spotLights (collectSpotLights scene sys))
   \<and> (\<forall>i j. i < j \<and> j < length (spotLights (tick scene sys)) \<and>
         castShadow (spotLights (tick scene sys) ! j)
         \<longrightarrow> castShadow (spotLights (tick scene sys) ! i))"
proof -
  let ?xs = "spotLights (collectSpotLights scene sys)"
  have eq: "spotLights (tick scene sys) =
      filter castShadow ?xs @ filter (\<lambda>l. \<not> castShadow l) ?xs"
    by (simp only: tick_spotLights array_sort_compareShadow)
  have "castShadow ((filter castShadow ?xs @ filter (\<lambda>l. \<not> castShadow l) ?xs) ! i)"
    if "i < j" "j < length (filter castShadow ?xs @ filter (\<lambda>l. \<not> castShadow l) ?xs)"
      "castShadow ((filter castShadow ?xs @ filter (\<lambda>l. \<not> castShadow l) ?xs) ! j)"
    for i j
    using _ _ that by (rule append_nth_front) simp_all
  then have ord: "\<forall>i j. i < j \<and>
      j < length (filter castShadow ?xs @ filter (\<lambda>l. \<not> castShadow l) ?xs) \<and>
      castShadow ((filter castShadow ?xs @ filter (\<lambda>l. \<not> castShadow l) ?xs) ! j)
      \<longrightarrow> castShadow ((filter castShadow ?xs @ filter (\<lambda>l. \<not> castShadow l) ?xs) ! i)"
    by blast
  have "spotLights (tick scene sys) =
     filter castShadow ?xs @ filter (\<lambda>l. \<not> castShadow l) ?xs
   \<and> filter castShadow (spotLights (tick scene sys)) = filter castShadow ?xs
   \<and> filter (\<lambda>l. \<not> castShadow l) (spotLights (tick scene sys)) =
     filter (\<lambda>l. \<not> castShadow l) ?xs
   \<and> (\<forall>i j. i < j \<and> j < length (spotLights (tick scene sys)) \<and>
         castShadow (spotLights (tick scene sys) ! j)
         \<longrightarrow> castShadow (spotLights (tick scene sys) ! i))"
    unfolding eq using ord by (simp only: filter_partition_same)
  with collectSpotLights_eq [of scene sys] show ?thesis by blast
qed

theorem tick_shadow_casters_first_witness:
  "spotLights (collectSpotLights demo_scene stale_registry) =
     [demo_spot ''a'' 1 False, demo_spot ''d'' 1 True, demo_spot ''e'' 3 False]
   \<and> spotLights (tick demo_scene stale_registry) =
     [demo_spot ''d'' 1 True, demo_spot ''a'' 1 False, demo_spot ''e'' 3 False]"
  using tick_shadow_casters_first [of demo_scene stale_registry]
  by (simp add: collectSpotLights_eq demo_visible_spotlights) (simp add: demo_spot_def)

section \<open>Properties of the shading extension\<close>

lemma forEach_pushSpotLight_Inr:
  "forEach (pushSpotLight cam) ls acc = Inr acc' \<Longrightarrow>
     acc' = (fst acc @ map (extraOf cam) ls, snd acc @ map textureOf ls)"
proof (induction ls arbitrary: acc)
  case Nil
  then show ?case by simp
next
  case (Cons l ls)
  from Cons.prems obtain e where e: "el l = Some e"
    by (cases "el l") (simp_all add: pushSpotLight_def)
  let ?acc1 = "(fst acc @ [extraOf cam l], snd acc @ [textureOf l])"
  have p: "pushSpotLight cam l acc = Inr ?acc1"
    using e by (simp add: pushSpotLight_def extraOf_def textureOf_def Let_def)
  with Cons.prems have "forEach (pushSpotLight cam) ls ?acc1 = Inr acc'" by simp
  from Cons.IH [OF this] show ?case by simp
qed

lemma forEach_pushSpotLight_total:
  "\<forall>l \<in> set ls. el l \<noteq> None \<Longrightarrow> \<exists>acc'. forEach (pushSpotLight cam) ls acc = Inr acc'"
proof (induction ls arbitrary: acc)
  case Nil
  then show ?case by simp
next
  case (Cons l ls)
  then obtain e where e: "el l = Some e" by auto
  then obtain acc1 where "pushSpotLight cam l acc = Inr acc1"
    by (simp add: pushSpotLight_def Let_def)
  with Cons show ?case by simp
qed

lemma updateUniforms_Inr:
  assumes "updateUniforms sys shaderObj cam = Inr shaderObj'"
  shows "shaderObj' = shaderObj\<lparr>uniforms :=
           (uniforms shaderObj)\<lparr>spotLightExs := Some (map (extraOf cam) (spotLights sys)),
                                  spotLightTextures := Some (map textureOf (spotLights sys))\<rparr>\<rparr>"
proof (cases "forEach (pushSpotLight cam) (spotLights sys) ([], [])")
  case (Inl err)
  with assms show ?thesis by (simp add: updateUniforms_def)
next
  case (Inr acc')
  from forEach_pushSpotLight_Inr [OF Inr] Inr assms show ?thesis
    by (simp add: updateUniforms_def)
qed

lemma updateUniforms_total:
  "\<forall>l \<in> set (spotLights sys). el l \<noteq> None \<Longrightarrow>
     \<exists>shaderObj'. updateUniforms sys shaderObj cam = Inr shaderObj'"
  using forEach_pushSpotLight_total [of "spotLights sys" cam "([], [])"]
  by (auto simp: updateUniforms_def split: sum.splits prod.splits)

lemma updateUniforms_again:
  assumes "updateUniforms sys shaderObj cam = Inr shaderObj'"
  shows "updateUniforms sys shaderObj' cam = Inr shaderObj'"
proof (cases "forEach (pushSpotLight cam) (spotLights sys) ([], [])")
  case (Inl err)
  with assms show ?thesis by (simp add: updateUniforms_def)
next
  case (Inr acc')
  with assms show ?thesis
    by (cases acc') (auto simp: updateUniforms_def)
qed

lemma published_after:
  assumes "updateUniforms sys shaderObj cam = Inr shaderObj'"
  shows "published (r\<lparr>shaderObject := Some shaderObj'\<rparr>) =
     Some (map (extraOf cam) (spotLights sys), map textureOf (spotLights sys))"
  using updateUniforms_Inr [OF assms] by (simp add: published_def)

lemma up_identity: "transformDirection identity4 (0, 1, 0) = (0, 1, 0)"
  by (simp add: identity4_def vector_normalize_def)

lemma demo_updateUniforms:
  "updateUniforms demo_registry demo_shader demo_camera = Inr demo_published"
  by (simp add: updateUniforms_def demo_registry_def pushSpotLight_def gobo_spot_def
      demo_spot_def gobo_entity_def plain_entity_def demo_camera_def demo_shader_def
      demo_published_def up_identity del: transformDirection.simps)

lemma demo_registry_el: "\<forall>l \<in> set (spotLights demo_registry). el l \<noteq> None"
  by (simp add: demo_registry_def gobo_spot_def demo_spot_def)

lemma demo_onBeforeCompile:
  "onBeforeCompile demo_registry \<lparr>object3D = gobo_spot, scene_camera = demo_camera\<rparr>
       demo_shader \<lparr>shaderObject = None\<rparr> =
     Inr \<lparr>shaderObject = Some demo_published\<rparr>"
  by (simp add: onBeforeCompile_def demo_updateUniforms)

text \<open>
  Claim C4. Whenever one of the two hooks publishes (\<^verbatim>\<open>onBeforeCompile\<close> returning, or
  \<^verbatim>\<open>onBeforeRender\<close> returning after a program has been compiled), the array
  \<^verbatim>\<open>spotLightExs\<close> and the array \<^verbatim>\<open>spotLightTextures\<close> it has set both have the length of
  the registry's array as it is at that call, whatever the registry holds (so after any
  change of the scene that a \<^verbatim>\<open>tick\<close> has picked up). Both hooks return, without
  throwing, when every registered spotlight has its \<^verbatim>\<open>el\<close>.
\<close>

theorem published_arrays_match_registry:
  "(onBeforeCompile sys scene shaderObj r = Inr r' \<longrightarrow>
      (\<exists>extras textures. published r' = Some (extras, textures) \<and>
         length extras = length (spotLights sys) \<and>
         length textures = length (spotLights sys)))
   \<and> (shaderObject r \<noteq> None \<and> onBeforeRender sys cam r = Inr r'' \<longrightarrow>
      (\<exists>extras textures. published r'' = Some (extras, textures) \<and>
         length extras = length (spotLights sys) \<and>
         length textures = length (spotLights sys)))
   \<and> ((\<forall>l \<in> set (spotLights sys). el l \<noteq> None) \<longrightarrow>
      (\<exists>r1. onBeforeCompile sys scene shaderObj r = Inr r1) \<and>
      (\<exists>r2. onBeforeRender sys cam r = Inr r2))"
proof (intro conjI impI)
  assume "onBeforeCompile sys scene shaderObj r = Inr r'"
  then obtain shaderObj' where
    "updateUniforms sys shaderObj (scene_camera scene) = Inr shaderObj'"
    "r' = r\<lparr>shaderObject := Some shaderObj'\<rparr>"
    by (auto simp: onBeforeCompile_def split: sum.splits)
  then show "\<exists>extras textures. published r' = Some (extras, textures) \<and>
         length extras = length (spotLights sys) \<and>
         length textures = length (spotLights sys)"
    by (simp add: published_after)
next
  assume "shaderObject r \<noteq> None \<and> onBeforeRender sys cam r = Inr r''"
  then obtain shaderObj0 shaderObj' where
    "updateUniforms sys shaderObj0 cam = Inr shaderObj'"
    "r'' = r\<lparr>shaderObject := Some shaderObj'\<rparr>"
    by (auto simp: onBeforeRender_def split: sum.splits option.splits)
  then show "\<exists>extras textures. published r'' = Some (extras, textures) \<and>
         length extras = length (spotLights sys) \<and>
         length textures = length (spotLights sys)"
    by (simp add: published_after)
next
  assume a: "\<forall>l \<in> set (spotLights sys). el l \<noteq> None"
  from updateUniforms_total [OF a, of shaderObj "scene_camera scene"]
  show "\<exists>r1. onBeforeCompile sys scene shaderObj r = Inr r1"
    by (auto simp: onBeforeCompile_def split: sum.splits)
next
  assume a: "\<forall>l \<in> set (spotLights sys). el l \<noteq> None"
  show "\<exists>r2. onBeforeRender sys cam r = Inr r2"
  proof (cases "shaderObject r")
    case None
    then show ?thesis by (simp add: onBeforeRender_def)
  next
    case (Some shaderObj0)
    with updateUniforms_total [OF a, of shaderObj0 cam] show ?thesis
      by (auto simp: onBeforeRender_def split: sum.splits)
  qed
qed

theorem published_arrays_match_registry_witness:
  "(\<exists>r1 extras textures.
     onBeforeCompile demo_registry \<lparr>object3D = gobo_spot, scene_camera = demo_camera\<rparr>
       demo_shader \<lparr>shaderObject = None\<rparr> = Inr r1 \<and>
     published r1 = Some (extras, textures) \<and> length extras = 2 \<and> length textures = 2)
   \<and> (\<exists>r2 extras textures.
     onBeforeRender (tick empty_scene demo_registry) demo_camera
       \<lparr>shaderObject = Some demo_published\<rparr> = Inr r2 \<and>
     published r2 = Some (extras, textures) \<and> length extras = 0 \<and> length textures = 0)"
proof
  note t = published_arrays_match_registry
    [of demo_registry "\<lparr>object3D = gobo_spot, scene_camera = demo_camera\<rparr>"
        demo_shader "\<lparr>shaderObject = None\<rparr>" _ demo_camera]
  from t demo_registry_el obtain r1 where
    r1: "onBeforeCompile demo_registry \<lparr>object3D = gobo_spot, scene_camera = demo_camera\<rparr>
       demo_shader \<lparr>shaderObject = None\<rparr> = Inr r1"
    by blast
  have "length (spotLights demo_registry) = 2" by (simp add: demo_registry_def)
  with t [of r1] r1 show "\<exists>r1 extras textures.
     onBeforeCompile demo_registry \<lparr>object3D = gobo_spot, scene_camera = demo_camera\<rparr>
       demo_shader \<lparr>shaderObject = None\<rparr> = Inr r1 \<and>
     published r1 = Some (extras, textures) \<and> length extras = 2 \<and> length textures = 2"
    by auto
next
  let ?sys = "tick empty_scene demo_registry"
  let ?r = "\<lparr>shaderObject = Some demo_published\<rparr>"
  have e: "spotLights ?sys = []"
    by (simp add: tick_spotLights collectSpotLights_eq empty_scene_def spotlightFor_def)
  note t = published_arrays_match_registry
    [of ?sys empty_scene demo_shader ?r _ demo_camera]
  from t e obtain r2 where r2: "onBeforeRender ?sys demo_camera ?r = Inr r2"
    by auto
  with t [of _ r2] e show "\<exists>r2 extras textures.
     onBeforeRender ?sys demo_camera ?r = Inr r2 \<and>
     published r2 = Some (extras, textures) \<and> length extras = 0 \<and> length textures = 0"
    by auto
qed

text \<open>
  Claim C5, as the code has it. For a registered spotlight whose entity has no component
  \<^verbatim>\<open>spotlight-texture\<close>, the element of \<^verbatim>\<open>spotLightExs\<close> at its index has \<^verbatim>\<open>hasTexture\<close>
  false and \<^verbatim>\<open>intensity\<close> \<^verbatim>\<open>undefined\<close>, and the element of \<^verbatim>\<open>spotLightTextures\<close> at its
  index is \<^verbatim>\<open>undefined\<close>: the script supplies neither a default intensity nor a
  placeholder texture.
\<close>

theorem unbound_spotlight_entry:
  assumes "updateUniforms sys shaderObj cam = Inr shaderObj'"
    and "i < length (spotLights sys)"
    and "el (spotLights sys ! i) = Some e"
    and "components_spotlight_texture e = None"
  shows "\<exists>extras textures.
     spotLightExs (uniforms shaderObj') = Some extras \<and>
     spotLightTextures (uniforms shaderObj') = Some textures \<and>
     length extras = length (spotLights sys) \<and>
     length textures = length (spotLights sys) \<and>
     hasTexture (extras ! i) = False \<and>
     extra_intensity (extras ! i) = None \<and>
     textures ! i = None"
  using updateUniforms_Inr [OF assms(1)] assms(2-4)
  by (simp add: extraOf_def textureOf_def)

theorem unbound_spotlight_entry_witness:
  "\<exists>extras textures.
     spotLightExs (uniforms demo_published) = Some extras \<and>
     spotLightTextures (uniforms demo_published) = Some textures \<and>
     length extras = 2 \<and> length textures = 2 \<and>
     hasTexture (extras ! 1) = False \<and> extra_intensity (extras ! 1) = None \<and>
     textures ! 1 = None"
  using unbound_spotlight_entry [OF demo_updateUniforms, of 1 plain_entity]
  by (simp add: demo_registry_def demo_spot_def plain_entity_def numeral_2_eq_2)

text \<open>
  The claim C5 as the specification states it fails: with the textured spotlight and
  the spotlight \<open>a\<close>, which has no component, in the registry, \<^verbatim>\<open>updateUniforms\<close> stores
  for \<open>a\<close> an entry whose intensity is \<^verbatim>\<open>undefined\<close>, not a number, and a texture slot
  that is \<^verbatim>\<open>undefined\<close>, not a texture.
\<close>

theorem unbound_spotlight_counterexample:
  "updateUniforms demo_registry demo_shader demo_camera =
     Inr (demo_shader\<lparr>uniforms :=
       \<lparr>spotLightExs =
          Some [\<lparr>up = (0, 1, 0), hasTexture = True, extra_intensity = Some 2\<rparr>,
                \<lparr>up = (0, 1, 0), hasTexture = False, extra_intensity = None\<rparr>],
        spotLightTextures =
          Some [Some \<lparr>image_src = ''gobo.png'', colorCorrected = True\<rparr>, None]\<rparr>\<rparr>)
   \<and> el (spotLights demo_registry ! 1) = Some plain_entity
   \<and> components_spotlight_texture plain_entity = None"
  using demo_updateUniforms
  by (simp add: demo_published_def demo_registry_def demo_spot_def plain_entity_def)

lemma invoke_fixed: "hook s = Inr s \<Longrightarrow> invoke n hook s = Inr s"
  by (induction n) simp_all

lemma onBeforeRender_again:
  assumes "onBeforeRender sys cam r = Inr r'"
  shows "onBeforeRender sys cam r' = Inr r'"
proof (cases "shaderObject r")
  case None
  with assms show ?thesis by (simp add: onBeforeRender_def)
next
  case (Some shaderObj0)
  with assms obtain shaderObj' where
    u: "updateUniforms sys shaderObj0 cam = Inr shaderObj'"
    and r': "r' = r\<lparr>shaderObject := Some shaderObj'\<rparr>"
    by (auto simp: onBeforeRender_def split: sum.splits)
  from updateUniforms_again [OF u] r' show ?thesis
    by (simp add: onBeforeRender_def)
qed

lemma onBeforeCompile_again:
  assumes "onBeforeCompile sys scene shaderObj r = Inr r'"
  shows "\<exists>shaderObj'. shaderObject r' = Some shaderObj' \<and>
     onBeforeCompile sys scene shaderObj' r' = Inr r' \<and>
     onBeforeRender sys (scene_camera scene) r' = Inr r'"
proof -
  from assms obtain shaderObj' where
    u: "updateUniforms sys shaderObj (scene_camera scene) = Inr shaderObj'"
    and r': "r' = r\<lparr>shaderObject := Some shaderObj'\<rparr>"
    by (auto simp: onBeforeCompile_def split: sum.splits)
  from updateUniforms_again [OF u] r' show ?thesis
    by (simp add: onBeforeCompile_def onBeforeRender_def)
qed

text \<open>
  Claim C7. With the registry and the camera unchanged, calling a hook again changes
  nothing: after \<^verbatim>\<open>onBeforeCompile\<close> has returned, any number of further calls of it on
  the same shader object, and any number of calls of \<^verbatim>\<open>onBeforeRender\<close> with the scene's
  camera, return the same state with the same published arrays; after \<^verbatim>\<open>onBeforeRender\<close>
  has returned, any number of further calls return the same state. While no program has
  been compiled (\<^verbatim>\<open>shaderObject\<close> is \<^verbatim>\<open>null\<close>), \<^verbatim>\<open>onBeforeRender\<close> returns at once: the
  state is unchanged and nothing is published.
\<close>

theorem hooks_idempotent:
  "(onBeforeCompile sys scene shaderObj r = Inr r' \<longrightarrow>
      (\<exists>shaderObj'. shaderObject r' = Some shaderObj' \<and>
         (\<forall>n. invoke n (onBeforeCompile sys scene shaderObj') r' = Inr r') \<and>
         (\<forall>n. invoke n (onBeforeRender sys (scene_camera scene)) r' = Inr r')))
   \<and> (onBeforeRender sys cam r = Inr r'' \<longrightarrow>
      (\<forall>n. invoke n (onBeforeRender sys cam) r'' = Inr r''))
   \<and> (shaderObject r = None \<longrightarrow>
      onBeforeRender sys cam r = Inr r \<and> published r = None \<and>
      (\<forall>n. invoke n (onBeforeRender sys cam) r = Inr r))"
proof (intro conjI impI)
  assume "onBeforeCompile sys scene shaderObj r = Inr r'"
  from onBeforeCompile_again [OF this]
  show "\<exists>shaderObj'. shaderObject r' = Some shaderObj' \<and>
         (\<forall>n. invoke n (onBeforeCompile sys scene shaderObj') r' = Inr r') \<and>
         (\<forall>n. invoke n (onBeforeRender sys (scene_camera scene)) r' = Inr r')"
    by (auto simp: invoke_fixed)
next
  assume "onBeforeRender sys cam r = Inr r''"
  from onBeforeRender_again [OF this]
  show "\<forall>n. invoke n (onBeforeRender sys cam) r'' = Inr r''"
    by (simp add: invoke_fixed)
next
  assume n: "shaderObject r = None"
  then show "onBeforeRender sys cam r = Inr r" by (simp add: onBeforeRender_def)
  from n show "published r = None" by (simp add: published_def)
  from n show "\<forall>n. invoke n (onBeforeRender sys cam) r = Inr r"
    by (simp add: invoke_fixed onBeforeRender_def)
qed

theorem hooks_idempotent_witness:
  "invoke 3 (onBeforeRender demo_registry demo_camera) \<lparr>shaderObject = Some demo_published\<rparr>
     = Inr \<lparr>shaderObject = Some demo_published\<rparr>
   \<and> invoke 3 (onBeforeRender demo_registry demo_camera) \<lparr>shaderObject = None\<rparr>
     = Inr \<lparr>shaderObject = None\<rparr>"
proof -
  note t = hooks_idempotent
    [of demo_registry "\<lparr>object3D = gobo_spot, scene_camera = demo_camera\<rparr>"
        demo_shader "\<lparr>shaderObject = None\<rparr>" "\<lparr>shaderObject = Some demo_published\<rparr>"
        demo_camera "\<lparr>shaderObject = None\<rparr>"]
  from t demo_onBeforeCompile
  have "invoke 3 (onBeforeRender demo_registry demo_camera)
      \<lparr>shaderObject = Some demo_published\<rparr> = Inr \<lparr>shaderObject = Some demo_published\<rparr>"
    by simp
  moreover from t
  have "invoke 3 (onBeforeRender demo_registry demo_camera) \<lparr>shaderObject = None\<rparr>
       = Inr \<lparr>shaderObject = None\<rparr>"
    by simp
  ultimately show ?thesis by simp
qed

text \<open>
  Claim C10. \<^verbatim>\<open>init\<close> on an entity for which \<^verbatim>\<open>getObject3D('mesh')\<close> is \<^verbatim>\<open>undefined\<close>
  throws a \<^verbatim>\<open>TypeError\<close>; on an entity whose mesh has a material it returns, with both
  hooks installed and no shader object recorded.
\<close>

theorem init_requires_mesh:
  "(object3DMap this_el ''mesh'' = None \<longrightarrow> init this_el = Inl TypeError)
   \<and> (\<forall>mesh m. object3DMap this_el ''mesh'' = Some mesh \<and> material mesh = Some m \<longrightarrow>
         init this_el =
           Inr (m\<lparr>onBeforeCompile_hooked := True, onBeforeRender_hooked := True\<rparr>,
                \<lparr>shaderObject = None\<rparr>))"
  by (simp add: init_def)

theorem init_requires_mesh_witness:
  "init plain_entity = Inl TypeError
   \<and> init mesh_entity =
       Inr (\<lparr>onBeforeCompile_hooked = True, onBeforeRender_hooked = True\<rparr>,
            \<lparr>shaderObject = None\<rparr>)"
proof
  show "init plain_entity = Inl TypeError"
    using init_requires_mesh [of plain_entity] by (simp add: plain_entity_def)
  show "init mesh_entity =
       Inr (\<lparr>onBeforeCompile_hooked = True, onBeforeRender_hooked = True\<rparr>,
            \<lparr>shaderObject = None\<rparr>)"
    using init_requires_mesh [of mesh_entity] by (simp add: mesh_entity_def)
qed

section \<open>Properties of the texture binding\<close>

lemma setSource_new:
  assumes "ident \<noteq> src (data (component b))"
  shows "setSource ident b =
     b\<lparr>component := \<lparr>data = (data (component b))\<lparr>src := ident\<rparr>, texture = None\<rparr>,
       pending := pending b @ [ident]\<rparr>"
  using assms by (simp add: setSource_def update_def updateSrc_def Let_def)

lemma setSource_same:
  "setSource (src (data (component b))) b = b"
  by (simp add: setSource_def update_def Let_def)

lemma texture_setSource:
  "texture (component b) = None \<Longrightarrow> texture (component (setSource ident b)) = None"
  by (cases "ident = src (data (component b))") (simp_all add: setSource_new setSource_same)

lemma texture_loadFails: "texture (component (loadFails i b)) = texture (component b)"
  by (simp add: loadFails_def)

lemma texture_stays_absent:
  "texture (component b) = None \<Longrightarrow> \<forall>ev \<in> set evs. \<not> is_completion ev \<Longrightarrow>
     texture (component (run evs b)) = None"
proof (induction evs arbitrary: b)
  case Nil
  then show ?case by (simp add: run_def)
next
  case (Cons ev evs)
  from Cons.prems have "texture (component (step ev b)) = None"
    by (cases ev) (simp_all add: texture_setSource texture_loadFails)
  with Cons show ?case by (simp add: run_def)
qed

lemma resolved_loadCompletes:
  "i < length (pending b) \<Longrightarrow> resolved_src (loadCompletes i b) = Some (pending b ! i)"
  by (simp add: resolved_src_def loadCompletes_def loadCallback_def applyColorCorrection_def)

lemma pending_loadCompletes:
  "i < length (pending b) \<Longrightarrow> pending (loadCompletes i b) = remove_nth i (pending b)"
  by (simp add: loadCompletes_def)

lemma run_two_sources:
  assumes "s1 \<noteq> src (data (component b))" and "s2 \<noteq> s1"
  shows "pending (run [SetSource s1, SetSource s2] b) = pending b @ [s1, s2]"
    and "texture (component (run [SetSource s1, SetSource s2] b)) = None"
    and "src (data (component (run [SetSource s1, SetSource s2] b))) = s2"
  using assms by (simp_all add: run_def setSource_new)

lemma idle_two_sources_out_of_order:
  "run [SetSource ''a.png'', SetSource ''b.png'', LoadCompletes 1, LoadCompletes 0] idle_binding
   = \<lparr>component = \<lparr>data = \<lparr>src = ''b.png'', intensity = 10\<rparr>,
                    texture = Some \<lparr>image_src = ''a.png'', colorCorrected = True\<rparr>\<rparr>,
      pending = []\<rparr>"
  by (simp add: run_def idle_binding_def setSource_def update_def updateSrc_def Let_def
      loadCompletes_def loadCallback_def applyColorCorrection_def remove_nth_def)

lemma idle_two_sources_first_completes:
  "run [SetSource ''a.png'', SetSource ''b.png'', LoadCompletes 0] idle_binding
   = \<lparr>component = \<lparr>data = \<lparr>src = ''b.png'', intensity = 10\<rparr>,
                    texture = Some \<lparr>image_src = ''a.png'', colorCorrected = True\<rparr>\<rparr>,
      pending = [''b.png'']\<rparr>"
  by (simp add: run_def idle_binding_def setSource_def update_def updateSrc_def Let_def
      loadCompletes_def loadCallback_def applyColorCorrection_def remove_nth_def)

text \<open>
  Claim C1, as the code has it. When the source is set to \<open>s1\<close> and then to a different
  \<open>s2\<close> while both loads are in flight, the resolved texture is absent after the two
  calls, and after both loads have completed it is the texture of the load that completed
  last: that of \<open>s2\<close> when the load of \<open>s1\<close> completes first, that of \<open>s1\<close> when the load
  of \<open>s2\<close> completes first. The callback stores its texture without comparing the
  requested source with the current one.
\<close>

theorem last_completion_wins:
  assumes "s1 \<noteq> src (data (component b))" and "s2 \<noteq> s1"
  shows "resolved_src (run [SetSource s1, SetSource s2] b) = None
   \<and> pending (run [SetSource s1, SetSource s2] b) = pending b @ [s1, s2]
   \<and> resolved_src (run [SetSource s1, SetSource s2,
         LoadCompletes (length (pending b)), LoadCompletes (length (pending b))] b) = Some s2
   \<and> resolved_src (run [SetSource s1, SetSource s2,
         LoadCompletes (Suc (length (pending b))), LoadCompletes (length (pending b))] b) = Some s1"
proof -
  let ?b2 = "run [SetSource s1, SetSource s2] b"
  let ?n = "length (pending b)"
  note two = run_two_sources [OF assms]
  have a: "resolved_src ?b2 = None" using two(2) by (simp add: resolved_src_def)
  have p1: "pending (loadCompletes ?n ?b2) = pending b @ [s2]"
    using two(1) by (simp add: pending_loadCompletes remove_nth_def)
  have "resolved_src (loadCompletes ?n (loadCompletes ?n ?b2)) = Some s2"
    using p1 by (simp add: resolved_loadCompletes)
  then have c: "resolved_src (run [SetSource s1, SetSource s2,
         LoadCompletes ?n, LoadCompletes ?n] b) = Some s2"
    by (simp add: run_def)
  have p2: "pending (loadCompletes (Suc ?n) ?b2) = pending b @ [s1]"
    using two(1) by (simp add: pending_loadCompletes remove_nth_def)
  have "resolved_src (loadCompletes ?n (loadCompletes (Suc ?n) ?b2)) = Some s1"
    using p2 by (simp add: resolved_loadCompletes)
  then have d: "resolved_src (run [SetSource s1, SetSource s2,
         LoadCompletes (Suc ?n), LoadCompletes ?n] b) = Some s1"
    by (simp add: run_def)
  from a two(1) c d show ?thesis by simp
qed

theorem last_completion_wins_witness:
  "resolved_src (run [SetSource ''a.png'', SetSource ''b.png''] idle_binding) = None
   \<and> resolved_src (run [SetSource ''a.png'', SetSource ''b.png'',
         LoadCompletes 0, LoadCompletes 0] idle_binding) = Some ''b.png''
   \<and> resolved_src (run [SetSource ''a.png'', SetSource ''b.png'',
         LoadCompletes 1, LoadCompletes 0] idle_binding) = Some ''a.png''"
  using last_completion_wins [of "''a.png''" idle_binding "''b.png''"]
  by (simp add: idle_binding_def)

text \<open>
  The claim C1 as the specification states it fails: the source is set to \<^verbatim>\<open>a.png\<close>,
  then to \<^verbatim>\<open>b.png\<close>; the load of \<^verbatim>\<open>b.png\<close> completes, then the load of \<^verbatim>\<open>a.png\<close>. The
  binding ends with the texture of \<^verbatim>\<open>a.png\<close>, the superseded source, while its current
  source is \<^verbatim>\<open>b.png\<close>.
\<close>

theorem superseded_load_counterexample:
  "resolved_src (run [SetSource ''a.png'', SetSource ''b.png'',
       LoadCompletes 1, LoadCompletes 0] idle_binding) = Some ''a.png''
   \<and> resolved_src (run [SetSource ''a.png'', SetSource ''b.png'',
       LoadCompletes 1, LoadCompletes 0] idle_binding) \<noteq> Some ''b.png''
   \<and> src (data (component (run [SetSource ''a.png'', SetSource ''b.png'',
       LoadCompletes 1, LoadCompletes 0] idle_binding))) = ''b.png''"
  unfolding idle_two_sources_out_of_order by (simp add: resolved_src_def)

text \<open>
  Claim C6, as the code has it. Setting a source that differs from the current one makes
  the resolved texture absent at once and puts one load for the new source in flight,
  behind the loads already in flight. The texture then stays absent as long as no load of
  the binding completes, whatever else happens (failed loads, further changes of the
  source). The next load that completes stores its texture: the load for the new source,
  or an earlier one still in flight. A failed load leaves the texture as it is.
\<close>

theorem setSource_clears_texture:
  assumes "ident \<noteq> src (data (component b))"
  shows "texture (component (setSource ident b)) = None
   \<and> pending (setSource ident b) = pending b @ [ident]
   \<and> (\<forall>evs. (\<forall>ev \<in> set evs. \<not> is_completion ev) \<longrightarrow>
         texture (component (run evs (setSource ident b))) = None)
   \<and> resolved_src (loadCompletes (length (pending b)) (setSource ident b)) = Some ident
   \<and> (\<forall>i < length (pending b).
         resolved_src (loadCompletes i (setSource ident b)) = Some (pending b ! i))
   \<and> (\<forall>i b'. texture (component (loadFails i b')) = texture (component b'))"
proof -
  have t: "texture (component (setSource ident b)) = None"
    and p: "pending (setSource ident b) = pending b @ [ident]"
    using assms by (simp_all add: setSource_new)
  have s: "\<forall>evs. (\<forall>ev \<in> set evs. \<not> is_completion ev) \<longrightarrow>
         texture (component (run evs (setSource ident b))) = None"
    using texture_stays_absent [OF t] by blast
  have n: "resolved_src (loadCompletes (length (pending b)) (setSource ident b)) = Some ident"
    using p by (simp add: resolved_loadCompletes)
  have o: "\<forall>i < length (pending b).
         resolved_src (loadCompletes i (setSource ident b)) = Some (pending b ! i)"
    using p by (simp add: resolved_loadCompletes nth_append)
  from t p s n o show ?thesis by (simp add: texture_loadFails)
qed

theorem setSource_clears_texture_witness:
  "texture (component (setSource ''a.png'' idle_binding)) = None
   \<and> texture (component
        (run [LoadFails 0, SetSource ''b.png'', LoadFails 0]
           (setSource ''a.png'' idle_binding))) = None
   \<and> resolved_src (loadCompletes 0 (setSource ''a.png'' idle_binding)) = Some ''a.png''"
proof -
  have h: "''a.png'' \<noteq> src (data (component idle_binding))"
    by (simp add: idle_binding_def)
  have e: "\<forall>ev \<in> set [LoadFails 0, SetSource ''b.png'', LoadFails 0]. \<not> is_completion ev"
    by simp
  have l: "length (pending idle_binding) = 0" by (simp add: idle_binding_def)
  from setSource_clears_texture [OF h] e l show ?thesis by metis
qed

text \<open>
  The claim C6 as the specification states it fails: the source is set to \<^verbatim>\<open>a.png\<close>,
  then to \<^verbatim>\<open>b.png\<close>, and the load of \<^verbatim>\<open>a.png\<close> completes. The load for the new source
  \<^verbatim>\<open>b.png\<close> is still in flight, yet the resolved texture is present: it is that of
  \<^verbatim>\<open>a.png\<close>.
\<close>

theorem stale_texture_counterexample:
  "resolved_src (run [SetSource ''a.png'', SetSource ''b.png'', LoadCompletes 0]
       idle_binding) = Some ''a.png''
   \<and> pending (run [SetSource ''a.png'', SetSource ''b.png'', LoadCompletes 0]
       idle_binding) = [''b.png'']
   \<and> src (data (component (run [SetSource ''a.png'', SetSource ''b.png'', LoadCompletes 0]
       idle_binding))) = ''b.png''"
  unfolding idle_two_sources_first_completes by (simp add: resolved_src_def)

section \<open>Properties of the patched routine\<close>

lemma dot_self_of_unit: "glsl_length d = 1 \<Longrightarrow> dot d d = 1"
proof -
  assume "glsl_length d = 1"
  then have "sqrt (dot d d) = 1" by (simp add: glsl_length_def)
  then show ?thesis by simp
qed

lemma dot_times_left: "dot (vec3_times v k) w = k * dot v w"
  by (cases v, cases w) (simp add: algebra_simps)

lemma dot_times_right: "dot w (vec3_times v k) = k * dot w v"
  by (cases v, cases w) (simp add: algebra_simps)

lemma dot_cross_right: "dot d (cross u d) = 0"
  by (cases d, cases u) (simp add: algebra_simps)

lemma vec3_times_times: "vec3_times (vec3_times v a) b = vec3_times v (a * b)"
  by (cases v) (simp add: algebra_simps)

lemma vec3_times_one: "vec3_times v 1 = v"
  by (cases v) simp

lemma glsl_length_times:
  assumes "0 < t" shows "glsl_length (vec3_times v t) = t * glsl_length v"
proof -
  have "dot (vec3_times v t) (vec3_times v t) = t * t * dot v v"
    by (simp add: dot_times_left dot_times_right)
  then have "glsl_length (vec3_times v t) = sqrt (t * t * dot v v)"
    by (simp add: glsl_length_def)
  also have "\<dots> = sqrt (t * t) * sqrt (dot v v)" by (rule real_sqrt_mult)
  also have "sqrt (t * t) = t" using assms by simp
  finally show ?thesis by (simp add: glsl_length_def)
qed

lemma glsl_normalize_axis:
  assumes "0 < t" and "glsl_length d = 1"
  shows "glsl_normalize (vec3_times d t) = d"
  using assms by (simp add: glsl_normalize_def glsl_length_times vec3_times_times vec3_times_one)

lemma samplePoint_axis:
  assumes "dot d (ex_up ex) = 0" and "direction sl = d"
  shows "samplePoint sl ex d = (1 / 2, 1 / 2)"
  using assms
  by (simp add: samplePoint_def Let_def glsl_normalize_def dot_times_right dot_cross_right)

text \<open>
  Claim C9. When the slot's \<^verbatim>\<open>hasTexture\<close> is false, the colour the routine computes is
  the light's own colour times the angular attenuation times the distance attenuation,
  at every shaded point (so also inside the cone); the texture, the up vector and the
  intensity of the slot have no influence on the result.
\<close>

theorem untextured_slot_native_color:
  assumes "\<not> ex_hasTexture spotLightEx"
  shows "light_color (getSpotLightInfo gsa gda spotLight spotLightEx tex geometry) =
       nativeSpotLightColor gsa gda spotLight geometry
   \<and> light_color (getSpotLightInfo gsa gda spotLight spotLightEx tex geometry) =
       vec3_times
         (vec3_times (color spotLight)
            (gsa (coneCos spotLight) (penumbraCos spotLight)
               (dot (glsl_normalize
                       (vec3_minus (position spotLight) (geometry_position geometry)))
                  (direction spotLight))))
         (gda (glsl_length (vec3_minus (position spotLight) (geometry_position geometry)))
            (distance spotLight) (decay spotLight))
   \<and> getSpotLightInfo gsa gda spotLight spotLightEx tex geometry =
       getSpotLightInfo gsa gda spotLight
         (spotLightEx\<lparr>ex_up := u, ex_intensity := k\<rparr>) tex' geometry"
proof -
  have c: "x > 0 \<or> x \<le> 0" for x :: real by auto
  show ?thesis
    using assms by (simp add: getSpotLightInfo_def nativeSpotLightColor_def Let_def c)
qed

lemma sqrt_9: "sqrt 9 = 3"
  by (rule real_sqrt_unique) simp_all

theorem untextured_slot_native_color_witness:
  "light_color (getSpotLightInfo smoothstep inverseSquare demo_light flat_ex demo_sampler
       demo_geometry) = (1 / 9, 1 / 18, 1 / 36)"
proof -
  have "\<not> ex_hasTexture flat_ex" by (simp add: flat_ex_def)
  from untextured_slot_native_color
    [OF this, where gsa = smoothstep and gda = inverseSquare and spotLight = demo_light
       and tex = demo_sampler and geometry = demo_geometry and u = "(0, 1, 0)" and k = 0
       and tex' = demo_sampler]
  have "light_color (getSpotLightInfo smoothstep inverseSquare demo_light flat_ex
       demo_sampler demo_geometry) =
       nativeSpotLightColor smoothstep inverseSquare demo_light demo_geometry"
    by (rule conjunct1)
  also have "\<dots> = (1 / 9, 1 / 18, 1 / 36)"
    by (simp add: nativeSpotLightColor_def demo_light_def demo_geometry_def
        glsl_normalize_def glsl_length_def sqrt_9 smoothstep_def inverseSquare_def)
  finally show ?thesis .
qed

text \<open>
  Claim C8, as the code has it. Let the slot have a texture and intensity 2, let the
  light's direction and the slot's up vector be unit vectors, let the shaded point lie on
  the light's forward axis at distance \<open>t\<close> from it, inside a cone of positive half-angle,
  and let the angular attenuation on the axis be 1, as \<^verbatim>\<open>smoothstep\<close> gives. If the up
  vector is perpendicular to the light's direction, the routine samples the texture at
  \<open>(1/2, 1/2)\<close> and the colour is that sample times 2 times the distance attenuation.
\<close>

theorem textured_axis_sample:
  assumes "ex_hasTexture ex" and "ex_intensity ex = 2"
    and "glsl_length (direction sl) = 1" and "glsl_length (ex_up ex) = 1"
    and "dot (direction sl) (ex_up ex) = 0"
    and "- 1 < coneCos sl" and "coneCos sl < 1"
    and "0 < t"
    and "vec3_minus (position sl) (geometry_position g) = vec3_times (direction sl) t"
    and "gsa (coneCos sl) (penumbraCos sl) 1 = 1"
  shows "light_direction (getSpotLightInfo gsa gda sl ex tex g) = direction sl
   \<and> samplePoint sl ex (light_direction (getSpotLightInfo gsa gda sl ex tex g)) = (1 / 2, 1 / 2)
   \<and> light_color (getSpotLightInfo gsa gda sl ex tex g) =
       vec3_times (vec3_times (tex (1 / 2, 1 / 2)) 2) (gda t (distance sl) (decay sl))"
proof -
  let ?d = "direction sl"
  have n: "glsl_normalize (vec3_times ?d t) = ?d"
    using assms(8,3) by (rule glsl_normalize_axis)
  have l: "glsl_length (vec3_times ?d t) = t"
    using assms(8,3) by (simp add: glsl_length_times)
  have a: "dot ?d ?d = 1" using assms(3) by (rule dot_self_of_unit)
  have s: "samplePoint sl ex ?d = (1 / 2, 1 / 2)"
    using assms(5) by (rule samplePoint_axis) simp
  have c: "x > 0 \<or> x \<le> 0" for x :: real by auto
  show ?thesis
    using assms(1,2,9,10)
    by (simp add: getSpotLightInfo_def Let_def n l a s c vec3_times_times vec3_times_one)
qed

lemma sqrt_16_25: "sqrt (16 / 25) = 4 / 5"
  by (rule real_sqrt_unique) (simp_all add: power2_eq_square)

lemma arccos_three_fifths: "arccos (3 / 5) \<noteq> pi / 2"
proof
  assume a: "arccos (3 / 5) = pi / 2"
  have "cos (arccos (3 / 5)) = (3 / 5 :: real)" by (rule cos_arccos) simp_all
  then have "cos (pi / 2) = (3 / 5 :: real)" by (simp only: a)
  then show False by simp
qed

lemma arccos_half_pos: "0 < arccos (1 / 2)"
  using arccos_lt_bounded [of "1 / 2"] by simp

lemma tilted_direction:
  "light_direction (getSpotLightInfo smoothstep inverseSquare tilted_light demo_ex
      demo_sampler tilted_geometry) = (0, 3 / 5, 4 / 5)"
  by (simp add: getSpotLightInfo_def Let_def tilted_light_def demo_light_def
      tilted_geometry_def glsl_normalize_def glsl_length_def)

lemma tilted_samplePoint:
  "samplePoint tilted_light demo_ex (0, 3 / 5, 4 / 5) =
     (1 / 2, 1 / 2 + (arccos (3 / 5) - pi / 2) / (2 * arccos (1 / 2)))"
  by (simp add: samplePoint_def Let_def tilted_light_def demo_light_def demo_ex_def
      glsl_normalize_def glsl_length_def sqrt_16_25)

lemma tilted_offset: "(arccos (3 / 5) - pi / 2) / (2 * arccos (1 / 2)) \<noteq> 0"
  using arccos_three_fifths arccos_half_pos by simp

lemma tilted_color:
  "light_color (getSpotLightInfo smoothstep inverseSquare tilted_light demo_ex
      demo_sampler tilted_geometry) =
     (1, 1 + 2 * ((arccos (3 / 5) - pi / 2) / (2 * arccos (1 / 2))), 2)"
  by (simp add: getSpotLightInfo_def Let_def tilted_light_def demo_light_def
      tilted_geometry_def demo_ex_def glsl_normalize_def glsl_length_def samplePoint_def
      sqrt_16_25 smoothstep_def inverseSquare_def demo_sampler_def algebra_simps)

text \<open>
  The claim C8 as the specification states it fails when the up vector is not
  perpendicular to the light's direction: for the light aimed off its own axis, with the
  shaded point on the light's forward axis and inside the cone, the second sample
  coordinate is not \<open>1/2\<close>, and the colour is not the sample at the centre times 2 times
  the distance attenuation.
\<close>

theorem tilted_axis_sample_counterexample:
  "ex_hasTexture demo_ex \<and> ex_intensity demo_ex = 2
   \<and> vec3_minus (position tilted_light) (geometry_position tilted_geometry) =
       vec3_times (direction tilted_light) 1
   \<and> coneCos tilted_light <
       dot (light_direction (getSpotLightInfo smoothstep inverseSquare tilted_light demo_ex
              demo_sampler tilted_geometry)) (direction tilted_light)
   \<and> samplePoint tilted_light demo_ex
       (light_direction (getSpotLightInfo smoothstep inverseSquare tilted_light demo_ex
          demo_sampler tilted_geometry)) \<noteq> (1 / 2, 1 / 2)
   \<and> light_color (getSpotLightInfo smoothstep inverseSquare tilted_light demo_ex
        demo_sampler tilted_geometry) \<noteq>
       vec3_times (vec3_times (demo_sampler (1 / 2, 1 / 2)) 2)
         (inverseSquare 1 (distance tilted_light) (decay tilted_light))"
proof (intro conjI)
  show "ex_hasTexture demo_ex" "ex_intensity demo_ex = 2"
    by (simp_all add: demo_ex_def)
  show "vec3_minus (position tilted_light) (geometry_position tilted_geometry) =
       vec3_times (direction tilted_light) 1"
    by (simp add: tilted_light_def demo_light_def tilted_geometry_def)
  show "coneCos tilted_light <
       dot (light_direction (getSpotLightInfo smoothstep inverseSquare tilted_light demo_ex
              demo_sampler tilted_geometry)) (direction tilted_light)"
    unfolding tilted_direction by (simp add: tilted_light_def demo_light_def)
  show "samplePoint tilted_light demo_ex
       (light_direction (getSpotLightInfo smoothstep inverseSquare tilted_light demo_ex
          demo_sampler tilted_geometry)) \<noteq> (1 / 2, 1 / 2)"
    unfolding tilted_direction tilted_samplePoint using tilted_offset by simp
  show "light_color (getSpotLightInfo smoothstep inverseSquare tilted_light demo_ex
        demo_sampler tilted_geometry) \<noteq>
       vec3_times (vec3_times (demo_sampler (1 / 2, 1 / 2)) 2)
         (inverseSquare 1 (distance tilted_light) (decay tilted_light))"
    unfolding tilted_color using tilted_offset
    by (simp add: demo_sampler_def inverseSquare_def)
qed

theorem textured_axis_sample_witness:
  "light_direction (getSpotLightInfo smoothstep inverseSquare demo_light demo_ex
       demo_sampler demo_geometry) = (0, 0, 1)
   \<and> samplePoint demo_light demo_ex
       (light_direction (getSpotLightInfo smoothstep inverseSquare demo_light demo_ex
          demo_sampler demo_geometry)) = (1 / 2, 1 / 2)
   \<and> light_color (getSpotLightInfo smoothstep inverseSquare demo_light demo_ex
        demo_sampler demo_geometry) = (1 / 9, 1 / 9, 2 / 9)"
proof -
  have h: "ex_hasTexture demo_ex" "ex_intensity demo_ex = 2"
    "glsl_length (direction demo_light) = 1" "glsl_length (ex_up demo_ex) = 1"
    "dot (direction demo_light) (ex_up demo_ex) = 0"
    "- 1 < coneCos demo_light" "coneCos demo_light < 1" "(0::real) < 3"
    "vec3_minus (position demo_light) (geometry_position demo_geometry) =
       vec3_times (direction demo_light) 3"
    "smoothstep (coneCos demo_light) (penumbraCos demo_light) 1 = 1"
    by (simp_all add: demo_ex_def demo_light_def demo_geometry_def glsl_length_def
        smoothstep_def)
  note t = textured_axis_sample
    [where gsa = smoothstep and gda = inverseSquare and tex = demo_sampler
       and sl = demo_light and ex = demo_ex and g = demo_geometry and t = 3, OF h]
  have d: "direction demo_light = (0, 0, 1)"
    by (simp add: demo_light_def)
  have c: "vec3_times (vec3_times (demo_sampler (1 / 2, 1 / 2)) 2)
      (inverseSquare 3 (distance demo_light) (decay demo_light)) = (1 / 9, 1 / 9, 2 / 9)"
    by (simp add: demo_sampler_def inverseSquare_def)
  from t [unfolded d c] show ?thesis .
qed

end
